theory Spec2Isabelle
  imports Main "HOL-Library.Word"
begin

section \<open>web3-signer: wallet login with optional TOTP second factor\<close>

text \<open>
  A shallow embedding of the API's authentication code: \<^verbatim>\<open>utils/signature.ts\<close>
  (signature verifier), \<^verbatim>\<open>middleware/auth.ts\<close> (\<open>requireAuth\<close>) and
  \<^verbatim>\<open>routes/auth.ts\<close> (secret derivation and the six route handlers).

  The libraries the code calls are not part of the repository. They enter the model as
  the fields of a record \<open>platform\<close> (signature recovery of ethers, SHA-256 of node's
  crypto, the one-time-password generator of otplib, the QR renderer) or, where the code
  depends on how the library behaves (the checking window of otplib's authenticator, the
  queries of the data-access layer), as definitions that say so. Time, the random bytes
  of a login and the outcome of saving the session are inputs of a request.
\<close>

subsection \<open>JavaScript values\<close>

text \<open>
  What a JSON request body can hold, and what a response body is made of. \<open>JUndefined\<close>
  is the value of a field that is absent.
\<close>

datatype jsval =
    JUndefined
  | JNull
  | JBool bool
  | JNum int
  | JStr string
  | JArr "jsval list"
  | JObj "(string \<times> jsval) list"

type_synonym jsobject = "(string \<times> jsval) list"

definition field :: "jsobject \<Rightarrow> string \<Rightarrow> jsval" where
  "field obj k = (case map_of obj k of None \<Rightarrow> JUndefined | Some v \<Rightarrow> v)"

definition has_field :: "jsobject \<Rightarrow> string \<Rightarrow> bool" where
  "has_field obj k = (map_of obj k \<noteq> None)"

text \<open>
  \<open>String.prototype.toLowerCase\<close> on the characters of \<^typ>\<open>string\<close>: the letters
  A to Z move to a to z, every other character stays.
\<close>

definition lower_char :: "char \<Rightarrow> char" where
  "lower_char c =
     (let n = (of_char c :: nat) in if 65 \<le> n \<and> n \<le> 90 then char_of (n + 32) else c)"

definition toLowerCase :: "string \<Rightarrow> string" where
  "toLowerCase s = map lower_char s"

subsection \<open>External collaborators\<close>

text \<open>
  \<^item> \<open>ethers_recover message signature\<close>: \<open>ethers.recoverAddress(ethers.hashMessage(message),
    signature)\<close>; \<open>None\<close> when ethers throws. TypeScript's types are erased at run time and
    the enrollment route passes the body's \<open>signature\<close> field unvalidated, so the signature
    is a \<^typ>\<open>jsval\<close>.
  \<^item> \<open>sha256\<close>: the digest of node's \<open>crypto.createHash('sha256')\<close>, 256 bits.
  \<^item> \<open>totp secret counter\<close>: the token otplib generates from a secret at a time step.
  \<^item> \<open>qr_toDataURL\<close>: \<open>QRCode.toDataURL\<close>.
  \<^item> \<open>keyuri account issuer secret\<close>: \<open>authenticator.keyuri\<close>.
  \<^item> \<open>MFA_SERVER_SALT\<close>: the environment variable, \<open>None\<close> when unset.
\<close>

record platform =
  ethers_recover :: "string \<Rightarrow> jsval \<Rightarrow> string option"
  sha256 :: "string \<Rightarrow> 256 word"
  totp :: "string \<Rightarrow> int \<Rightarrow> string"
  qr_toDataURL :: "string \<Rightarrow> string"
  keyuri :: "string \<Rightarrow> string \<Rightarrow> string \<Rightarrow> string"
  MFA_SERVER_SALT :: "string option"

subsection \<open>Signature verifier (utils/signature.ts)\<close>

datatype error = RecoveryFailed string

text \<open>\<open>recoverAddress\<close>: any failure of the primitive is rethrown as a new \<open>Error\<close>.\<close>

definition recoverAddress :: "platform \<Rightarrow> string \<Rightarrow> jsval \<Rightarrow> error + string" where
  "recoverAddress P message signature =
     (case ethers_recover P message signature of
        None \<Rightarrow> Inl (RecoveryFailed ''Failed to recover address from signature'')
      | Some recoveredAddress \<Rightarrow> Inr recoveredAddress)"

text \<open>
  \<open>verifySignature\<close>: the \<open>try\<close> block awaits \<open>recoverAddress\<close> and compares in lower
  case; the \<open>catch\<close> block returns \<open>false\<close>. The result type keeps an error side, so that
  "never throws" is a statement about the model and not a consequence of its type.
\<close>

definition verifySignature :: "platform \<Rightarrow> string \<Rightarrow> jsval \<Rightarrow> string \<Rightarrow> error + bool" where
  "verifySignature P message signature expectedAddress =
     (case recoverAddress P message signature of
        Inr recoveredAddress \<Rightarrow>
          Inr (toLowerCase recoveredAddress = toLowerCase expectedAddress)
      | Inl e \<Rightarrow> Inr False)"

subsection \<open>MFA secret derivation (generateMFASecret)\<close>

definition digest_bytes :: "256 word \<Rightarrow> 8 word list" where
  "digest_bytes h = map (\<lambda>i. ucast (drop_bit (8 * (31 - i)) h)) [0..<32]"

definition hex_digit :: "nat \<Rightarrow> char" where
  "hex_digit n = ''0123456789abcdef'' ! (n mod 16)"

definition hex_of_byte :: "8 word \<Rightarrow> string" where
  "hex_of_byte b = [hex_digit (unat b div 16), hex_digit (unat b mod 16)]"

text \<open>\<open>.digest('hex')\<close>: two lower-case hexadecimal digits for each byte.\<close>

definition digest_hex :: "256 word \<Rightarrow> string" where
  "digest_hex h = concat (map hex_of_byte (digest_bytes h))"

definition hex_value :: "char \<Rightarrow> nat option" where
  "hex_value c =
     (let n = (of_char c :: nat) in
      if 48 \<le> n \<and> n \<le> 57 then Some (n - 48)
      else if 97 \<le> n \<and> n \<le> 102 then Some (n - 87)
      else if 65 \<le> n \<and> n \<le> 70 then Some (n - 55)
      else None)"

text \<open>
  \<open>parseInt(s, 16)\<close> on the digits of \<open>s\<close>: the value of the longest prefix of
  hexadecimal digits, \<open>None\<close> (NaN) when that prefix is empty. Leading white space, a sign
  and a \<open>0x\<close> prefix, which \<open>parseInt\<close> also reads, do not occur in a hex digest.
\<close>

fun parseInt16_from :: "nat \<Rightarrow> string \<Rightarrow> nat" where
  "parseInt16_from acc [] = acc"
| "parseInt16_from acc (c # cs) =
     (case hex_value c of None \<Rightarrow> acc | Some d \<Rightarrow> parseInt16_from (16 * acc + d) cs)"

definition parseInt16 :: "string \<Rightarrow> nat option" where
  "parseInt16 s =
     (case s of [] \<Rightarrow> None
      | c # cs \<Rightarrow> (case hex_value c of None \<Rightarrow> None | Some d \<Rightarrow> Some (parseInt16_from d cs)))"

definition substr :: "string \<Rightarrow> nat \<Rightarrow> nat \<Rightarrow> string" where
  "substr s start len = take len (drop start s)"

definition base32Chars :: string where
  "base32Chars = ''ABCDEFGHIJKLMNOPQRSTUVWXYZ234567''"

text \<open>
  One round of the loop: \<open>secret += base32Chars[byte % 32]\<close>. When \<open>parseInt\<close> gives NaN,
  the index is NaN, the character is \<open>undefined\<close> and JavaScript appends the word.
\<close>

definition secret_step :: "string \<Rightarrow> string \<Rightarrow> nat \<Rightarrow> string" where
  "secret_step hash secret i =
     (case parseInt16 (substr hash (i * 2) 2) of
        None \<Rightarrow> secret @ ''undefined''
      | Some byte \<Rightarrow> secret @ [base32Chars ! (byte mod 32)])"

definition server_salt :: "platform \<Rightarrow> string" where
  "server_salt P =
     (case MFA_SERVER_SALT P of
        None \<Rightarrow> ''default-salt-change-this''
      | Some s \<Rightarrow> if s = [] then ''default-salt-change-this'' else s)"

definition generateMFASecret :: "platform \<Rightarrow> string \<Rightarrow> string" where
  "generateMFASecret P address =
     (let normalizedAddress = toLowerCase address;
          salt = server_salt P;
          input = normalizedAddress @ '':'' @ salt;
          hash = digest_hex (sha256 P input)
      in foldl (secret_step hash) [] [0..<32])"

subsection \<open>Data store (Prisma models User, Auth, Message)\<close>

text \<open>
  The rows hold the columns the routes read or write. \<open>user_seq\<close> is the sequence behind
  the \<open>SERIAL\<close> primary key of \<open>users\<close>: a new row takes the next value.
\<close>

record user =
  u_id :: nat
  u_address :: string
  u_role :: string

record auth =
  a_userId :: nat
  a_mfa :: bool
  a_awaitingMfa :: bool
  a_mfaTimeoutTimestamp :: "int option"

record message =
  m_id :: nat
  m_userId :: nat
  m_message :: string
  m_signature :: string
  m_signer :: string
  m_valid :: bool
  m_createdAt :: int

record store =
  users :: "user list"
  auths :: "auth list"
  messages :: "message list"
  user_seq :: nat

text \<open>A user as \<open>findUnique\<close> returns it with \<open>include: { auth, messages }\<close>.\<close>

record loaded_user =
  lu_user :: user
  lu_auth :: "auth option"
  lu_messages :: "message list"

text \<open>
  \<open>messages: { take: 10, orderBy: { createdAt: 'desc' } }\<close>. The order among rows of
  equal \<open>createdAt\<close> is the database's; here it is the reverse of the stable sort.
\<close>

definition recent_messages :: "store \<Rightarrow> nat \<Rightarrow> message list" where
  "recent_messages db uid =
     take 10 (rev (sort_key m_createdAt (filter (\<lambda>m. m_userId m = uid) (messages db))))"

definition load_user :: "store \<Rightarrow> user \<Rightarrow> loaded_user" where
  "load_user db u =
     \<lparr>lu_user = u,
      lu_auth = find (\<lambda>a. a_userId a = u_id u) (auths db),
      lu_messages = recent_messages db (u_id u)\<rparr>"

definition findUnique_by_address :: "store \<Rightarrow> string \<Rightarrow> loaded_user option" where
  "findUnique_by_address db addr =
     map_option (load_user db) (find (\<lambda>u. u_address u = addr) (users db))"

definition findUnique_by_id :: "store \<Rightarrow> nat \<Rightarrow> loaded_user option" where
  "findUnique_by_id db uid =
     map_option (load_user db) (find (\<lambda>u. u_id u = uid) (users db))"

text \<open>
  \<open>prisma.user.create\<close> with the nested \<open>auth: { create: { mfa: false, awaitingMfa:
  false } }\<close>; the role and the timeout take the defaults of the schema.
\<close>

definition user_create :: "store \<Rightarrow> string \<Rightarrow> loaded_user \<times> store" where
  "user_create db addr =
     (let new_id = Suc (user_seq db);
          u = \<lparr>u_id = new_id, u_address = addr, u_role = ''user''\<rparr>;
          a = \<lparr>a_userId = new_id, a_mfa = False, a_awaitingMfa = False,
               a_mfaTimeoutTimestamp = None\<rparr>;
          db' = db\<lparr>users := users db @ [u], auths := auths db @ [a], user_seq := new_id\<rparr>
      in (load_user db' u, db'))"

text \<open>
  \<open>prisma.auth.update({ where: { userId }, data })\<close>: \<open>None\<close> is the exception Prisma
  throws when no row has that \<open>userId\<close>.
\<close>

definition auth_update :: "store \<Rightarrow> nat \<Rightarrow> (auth \<Rightarrow> auth) \<Rightarrow> store option" where
  "auth_update db uid f =
     (if list_ex (\<lambda>a. a_userId a = uid) (auths db)
      then Some (db\<lparr>auths := map (\<lambda>a. if a_userId a = uid then f a else a) (auths db)\<rparr>)
      else None)"

subsection \<open>Session, process state, requests and responses\<close>

text \<open>The four optional fields the routes keep in \<open>req.session\<close> (types/index.ts).\<close>

record session =
  userId :: "nat option"
  address :: "string option"
  pendingUserId :: "nat option"
  mfaBonusPhrase :: "string option"

definition empty_session :: session where
  "empty_session = \<lparr>userId = None, address = None, pendingUserId = None, mfaBonusPhrase = None\<rparr>"

text \<open>JavaScript's \<open>!x\<close> on an optional number and on an optional string.\<close>

definition truthy_num :: "nat option \<Rightarrow> bool" where
  "truthy_num x = (case x of None \<Rightarrow> False | Some n \<Rightarrow> n \<noteq> 0)"

definition truthy_str :: "string option \<Rightarrow> bool" where
  "truthy_str x = (case x of None \<Rightarrow> False | Some s \<Rightarrow> s \<noteq> [])"

text \<open>
  What outlives a request besides the sessions: the data store, and the \<open>window\<close> option
  of otplib's \<open>authenticator\<close>, a singleton of the process.
\<close>

record world =
  db :: store
  otp_window :: nat

text \<open>
  A request: its JSON body, the clock (\<open>Date.now()\<close>, milliseconds), the sixteen bytes
  \<open>crypto.randomBytes(16)\<close> would return, and whether the session store accepts the
  \<open>req.session.save\<close> or \<open>req.session.destroy\<close> the route calls.

  The session of an outcome is the session as the store holds it after the request, the
  one the next request of the client starts from. A route that assigns session fields
  and calls \<open>save\<close> leaves the stored session as it was when the store refuses; the
  routes that assign fields without calling \<open>save\<close> leave the write to the session
  middleware at the end of the response.
\<close>

record request =
  body :: jsobject
  now :: int
  random16 :: "128 word"
  session_store_ok :: bool

record response =
  status :: nat
  json :: jsobject

type_synonym outcome = "response \<times> session \<times> world"

definition error_response :: "nat \<Rightarrow> string \<Rightarrow> response" where
  "error_response st msg =
     \<lparr>status = st,
      json = [(''error'', JStr msg), (''status'', JNum (int st)), (''success'', JBool False)]\<rparr>"

definition ok_response :: "jsobject \<Rightarrow> response" where
  "ok_response obj = \<lparr>status = 200, json = obj\<rparr>"

definition message_json :: "message \<Rightarrow> jsval" where
  "message_json msg =
     JObj [(''id'', JNum (int (m_id msg))), (''message'', JStr (m_message msg)),
           (''signature'', JStr (m_signature msg)), (''signer'', JStr (m_signer msg)),
           (''valid'', JBool (m_valid msg)), (''createdAt'', JNum (m_createdAt msg))]"

definition user_json :: "user \<Rightarrow> jsval" where
  "user_json u =
     JObj [(''id'', JNum (int (u_id u))), (''address'', JStr (u_address u)),
           (''role'', JStr (u_role u))]"

definition user_mfa_json :: "user \<Rightarrow> bool \<Rightarrow> jsval" where
  "user_mfa_json u mfa =
     JObj [(''id'', JNum (int (u_id u))), (''address'', JStr (u_address u)),
           (''role'', JStr (u_role u)), (''mfa'', JBool mfa)]"

subsection \<open>Request validation (zod schemas)\<close>

text \<open>\<open>z.string()\<close> accepts a string; \<open>z.string().optional()\<close> also an absent field.\<close>

definition LoginSchema_parse :: "jsobject \<Rightarrow> (string \<times> string \<times> string) option" where
  "LoginSchema_parse b =
     (case (field b ''message'', field b ''signature'', field b ''address'') of
        (JStr message, JStr signature, JStr addr) \<Rightarrow> Some (message, signature, addr)
      | _ \<Rightarrow> None)"

definition MFAVerifySchema_parse :: "jsobject \<Rightarrow> (string \<times> jsval) option" where
  "MFAVerifySchema_parse b =
     (case (field b ''mfa_code'', field b ''mfa_bonus_phrase'') of
        (JStr mfa_code, JStr phrase) \<Rightarrow> Some (mfa_code, JStr phrase)
      | (JStr mfa_code, JUndefined) \<Rightarrow> Some (mfa_code, JUndefined)
      | _ \<Rightarrow> None)"

definition MFACodeSchema_parse :: "jsobject \<Rightarrow> string option" where
  "MFACodeSchema_parse b =
     (case field b ''mfa_code'' of JStr mfa_code \<Rightarrow> Some mfa_code | _ \<Rightarrow> None)"

subsection \<open>One-time passwords (otplib's authenticator)\<close>

text \<open>The time step of a clock reading: thirty seconds, counted from the epoch.\<close>

definition time_step :: "int \<Rightarrow> int" where
  "time_step t = t div 30000"

definition authenticator_generate :: "platform \<Rightarrow> int \<Rightarrow> string \<Rightarrow> string" where
  "authenticator_generate P t secret = totp P secret (time_step t)"

text \<open>
  \<open>authenticator.verify({ token, secret })\<close> under the option \<open>window = n\<close>: the token is
  accepted when it is the token of the current step or of one of the \<open>n\<close> steps before
  or after it.
\<close>

definition authenticator_verify :: "platform \<Rightarrow> nat \<Rightarrow> int \<Rightarrow> string \<Rightarrow> string \<Rightarrow> bool" where
  "authenticator_verify P n t token secret =
     list_ex (\<lambda>d. token = totp P secret (time_step t + d)) [- int n .. int n]"

text \<open>
  The window of a process in which no route has assigned \<open>authenticator.options\<close> yet:
  otplib's preset, 0, which accepts the token of the current step only.
\<close>

definition default_window :: nat where
  "default_window = 0"

subsection \<open>Bonus phrase (generateBonusPhrase)\<close>

definition random_bytes :: "128 word \<Rightarrow> 8 word list" where
  "random_bytes r = map (\<lambda>i. ucast (drop_bit (8 * (15 - i)) r)) [0..<16]"

definition generateBonusPhrase :: "128 word \<Rightarrow> string" where
  "generateBonusPhrase r = concat (map hex_of_byte (random_bytes r))"

subsection \<open>requireAuth (middleware/auth.ts)\<close>

definition requireAuth :: "session \<Rightarrow> response option" where
  "requireAuth sess =
     (if \<not> truthy_num (userId sess) then Some (error_response 401 ''Authentication required'')
      else None)"

subsection \<open>POST /auth: login\<close>

text \<open>
  The branch of a user whose \<open>auth.mfa\<close> is set (lines 126 to 159): the timeout is
  written to the store, the two pending fields to the session, and the session is saved.
  When the save fails the timeout is already written and the session is not.
\<close>

definition login_mfa :: "request \<Rightarrow> session \<Rightarrow> world \<Rightarrow> loaded_user \<Rightarrow> outcome" where
  "login_mfa req sess w lu =
     (let bonusPhrase = generateBonusPhrase (random16 req);
          mfaTimeout = now req + 5 * 60 * 1000
      in case auth_update (db w) (u_id (lu_user lu))
                (\<lambda>a. a\<lparr>a_mfaTimeoutTimestamp := Some mfaTimeout\<rparr>) of
           None \<Rightarrow> (error_response 500 ''Login failed'', sess, w)
         | Some db' \<Rightarrow>
             (let sess' = sess\<lparr>pendingUserId := Some (u_id (lu_user lu)),
                               mfaBonusPhrase := Some bonusPhrase\<rparr>
              in if \<not> session_store_ok req
                 then (error_response 500 ''Failed to save session'', sess, w\<lparr>db := db'\<rparr>)
                 else (ok_response [(''success'', JBool True), (''mfa'', JBool True),
                                    (''mfa_bonus_phrase'', JStr bonusPhrase)],
                       sess', w\<lparr>db := db'\<rparr>)))"

text \<open>The branch without MFA (lines 161 to 195).\<close>

definition login_complete :: "request \<Rightarrow> session \<Rightarrow> world \<Rightarrow> loaded_user \<Rightarrow> outcome" where
  "login_complete req sess w lu =
     (let sess' = sess\<lparr>userId := Some (u_id (lu_user lu)),
                       address := Some (u_address (lu_user lu))\<rparr>
      in if \<not> session_store_ok req
         then (error_response 500 ''Failed to save session'', sess, w)
         else (ok_response [(''success'', JBool True), (''mfa'', JBool False),
                            (''user'', user_json (lu_user lu)),
                            (''messages'', JArr (map message_json (lu_messages lu)))],
               sess', w))"

definition find_or_create_user :: "store \<Rightarrow> string \<Rightarrow> loaded_user \<times> store" where
  "find_or_create_user d normalizedAddress =
     (case findUnique_by_address d normalizedAddress of
        Some lu \<Rightarrow> (lu, d)
      | None \<Rightarrow> user_create d normalizedAddress)"

definition login_mfa_enabled :: "loaded_user \<Rightarrow> bool" where
  "login_mfa_enabled lu = (case lu_auth lu of None \<Rightarrow> False | Some a \<Rightarrow> a_mfa a)"

definition post_auth :: "platform \<Rightarrow> request \<Rightarrow> session \<Rightarrow> world \<Rightarrow> outcome" where
  "post_auth P req sess w =
     (case LoginSchema_parse (body req) of
        None \<Rightarrow> (error_response 500 ''Login failed'', sess, w)
      | Some (message, signature, addr) \<Rightarrow>
          if message \<noteq> ''login''
          then (error_response 400 ''Invalid login message'', sess, w)
          else
            (case verifySignature P message (JStr signature) addr of
               Inl e \<Rightarrow> (error_response 500 ''Login failed'', sess, w)
             | Inr isValid \<Rightarrow>
                 if \<not> isValid
                 then (error_response 401 ''Invalid signature'', sess, w)
                 else
                   (let normalizedAddress = toLowerCase addr;
                        (lu, db') = find_or_create_user (db w) normalizedAddress;
                        w' = w\<lparr>db := db'\<rparr>
                    in if login_mfa_enabled lu then login_mfa req sess w' lu
                       else login_complete req sess w' lu)))"

subsection \<open>GET /auth and POST /auth/logout\<close>

text \<open>
  Behind \<open>requireAuth\<close> the session has a \<open>userId\<close>, and behind the pending check of
  POST /auth/mfa it has both pending fields: \<open>the\<close> reads them only there.
\<close>

definition get_auth :: "session \<Rightarrow> world \<Rightarrow> outcome" where
  "get_auth sess w =
     (case requireAuth sess of
        Some r \<Rightarrow> (r, sess, w)
      | None \<Rightarrow>
          (case findUnique_by_id (db w) (the (userId sess)) of
             None \<Rightarrow> (error_response 404 ''User not found'', sess, w)
           | Some lu \<Rightarrow>
               (ok_response [(''success'', JBool True),
                             (''user'', user_mfa_json (lu_user lu) (login_mfa_enabled lu)),
                             (''messages'', JArr (map message_json (lu_messages lu)))],
                sess, w)))"

text \<open>\<open>req.session.destroy\<close>: the session is gone, the next request starts an empty one.\<close>

definition post_logout :: "request \<Rightarrow> session \<Rightarrow> world \<Rightarrow> outcome" where
  "post_logout req sess w =
     (if \<not> session_store_ok req then (error_response 500 ''Logout failed'', sess, w)
      else (ok_response [(''success'', JBool True), (''message'', JStr ''Logged out successfully'')],
            empty_session, w))"

subsection \<open>POST /auth/mfa/initialize\<close>

text \<open>
  The check token the route generates and verifies (lines 326 to 331) only decides
  whether a line is logged; it is left out.
\<close>

definition post_mfa_initialize :: "platform \<Rightarrow> request \<Rightarrow> session \<Rightarrow> world \<Rightarrow> outcome" where
  "post_mfa_initialize P req sess w =
     (case requireAuth sess of
        Some r \<Rightarrow> (r, sess, w)
      | None \<Rightarrow>
          (let message = field (body req) ''message'';
               signature = field (body req) ''signature''
           in if message \<noteq> JStr ''enableMFA''
              then (error_response 400 ''Invalid MFA enablement message'', sess, w)
              else
                (case findUnique_by_id (db w) (the (userId sess)) of
                   None \<Rightarrow> (error_response 404 ''User not found'', sess, w)
                 | Some lu \<Rightarrow>
                     (case verifySignature P ''enableMFA'' signature (u_address (lu_user lu)) of
                        Inl e \<Rightarrow> (error_response 500 ''Failed to initialize MFA'', sess, w)
                      | Inr isValid \<Rightarrow>
                          if \<not> isValid
                          then (error_response 401 ''Invalid signature'', sess, w)
                          else
                            (let secret = generateMFASecret P (u_address (lu_user lu));
                                 otpauth = keyuri P (u_address (lu_user lu)) ''CAT Web3Signer'' secret;
                                 qrCode = qr_toDataURL P otpauth
                             in case auth_update (db w) (u_id (lu_user lu))
                                       (\<lambda>a. a\<lparr>a_awaitingMfa := True\<rparr>) of
                                  None \<Rightarrow> (error_response 500 ''Failed to initialize MFA'', sess, w)
                                | Some db' \<Rightarrow>
                                    (ok_response [(''success'', JBool True), (''qrCode'', JStr qrCode)],
                                     sess, w\<lparr>db := db'\<rparr>))))))"

subsection \<open>POST /auth/mfa/verify: complete the enrollment\<close>

text \<open>The token is verified under whatever window the process has at that moment.\<close>

definition post_mfa_verify :: "platform \<Rightarrow> request \<Rightarrow> session \<Rightarrow> world \<Rightarrow> outcome" where
  "post_mfa_verify P req sess w =
     (case requireAuth sess of
        Some r \<Rightarrow> (r, sess, w)
      | None \<Rightarrow>
          (case MFACodeSchema_parse (body req) of
             None \<Rightarrow> (error_response 500 ''Failed to verify MFA'', sess, w)
           | Some mfa_code \<Rightarrow>
               (case findUnique_by_id (db w) (the (userId sess)) of
                  None \<Rightarrow> (error_response 404 ''User not found'', sess, w)
                | Some lu \<Rightarrow>
                    (case lu_auth lu of
                       None \<Rightarrow> (error_response 404 ''User not found'', sess, w)
                     | Some a \<Rightarrow>
                         if \<not> a_awaitingMfa a
                         then (error_response 400 ''MFA setup not initiated'', sess, w)
                         else
                           (let secret = generateMFASecret P (u_address (lu_user lu));
                                isValid = authenticator_verify P (otp_window w) (now req) mfa_code secret
                            in if \<not> isValid
                               then (error_response 401 ''Invalid MFA code'', sess, w)
                               else
                                 (case auth_update (db w) (u_id (lu_user lu))
                                         (\<lambda>a. a\<lparr>a_mfa := True, a_awaitingMfa := False\<rparr>) of
                                    None \<Rightarrow> (error_response 500 ''Failed to verify MFA'', sess, w)
                                  | Some db' \<Rightarrow>
                                      (ok_response [(''success'', JBool True),
                                                    (''message'', JStr ''MFA enabled successfully'')],
                                       sess, w\<lparr>db := db'\<rparr>)))))))"

subsection \<open>POST /auth/mfa: complete a login with MFA\<close>

definition clear_pending :: "session \<Rightarrow> session" where
  "clear_pending sess = sess\<lparr>pendingUserId := None, mfaBonusPhrase := None\<rparr>"

text \<open>
  Lines 474 to 525, once the user and its auth row are loaded and the window has not
  expired: \<open>authenticator.options = { window: 2 }\<close> changes the process, then the token
  is verified.
\<close>

definition mfa_check_code ::
  "platform \<Rightarrow> request \<Rightarrow> session \<Rightarrow> world \<Rightarrow> loaded_user \<Rightarrow> auth \<Rightarrow> string \<Rightarrow> outcome" where
  "mfa_check_code P req sess w lu a mfa_code =
     (let secret = generateMFASecret P (u_address (lu_user lu));
          w2 = w\<lparr>otp_window := 2\<rparr>;
          isValid = authenticator_verify P (otp_window w2) (now req) mfa_code secret
      in if \<not> isValid
         then (error_response 401 ''Invalid MFA code'', sess, w2)
         else
           (let sess' = clear_pending (sess\<lparr>userId := Some (u_id (lu_user lu)),
                                             address := Some (u_address (lu_user lu))\<rparr>)
            in case auth_update (db w2) (u_id (lu_user lu))
                      (\<lambda>a. a\<lparr>a_mfaTimeoutTimestamp := None\<rparr>) of
                 None \<Rightarrow> (error_response 500 ''MFA authentication failed'', sess', w2)
               | Some db' \<Rightarrow>
                   (ok_response [(''success'', JBool True),
                                 (''user'', user_mfa_json (lu_user lu) (a_mfa a)),
                                 (''messages'', JArr (map message_json (lu_messages lu)))],
                    sess', w2\<lparr>db := db'\<rparr>)))"

definition mfa_expired :: "request \<Rightarrow> auth \<Rightarrow> bool" where
  "mfa_expired req a =
     (case a_mfaTimeoutTimestamp a of None \<Rightarrow> False | Some t \<Rightarrow> now req > t)"

definition post_mfa :: "platform \<Rightarrow> request \<Rightarrow> session \<Rightarrow> world \<Rightarrow> outcome" where
  "post_mfa P req sess w =
     (case MFAVerifySchema_parse (body req) of
        None \<Rightarrow> (error_response 500 ''MFA authentication failed'', sess, w)
      | Some (mfa_code, mfa_bonus_phrase) \<Rightarrow>
          if \<not> truthy_num (pendingUserId sess) \<or> \<not> truthy_str (mfaBonusPhrase sess)
          then (error_response 401 ''No pending MFA authentication'', sess, w)
          else if mfa_bonus_phrase \<noteq> JStr (the (mfaBonusPhrase sess))
          then (error_response 401 ''Invalid bonus phrase'', sess, w)
          else
            (case findUnique_by_id (db w) (the (pendingUserId sess)) of
               None \<Rightarrow> (error_response 404 ''User not found'', sess, w)
             | Some lu \<Rightarrow>
                 (case lu_auth lu of
                    None \<Rightarrow> (error_response 404 ''User not found'', sess, w)
                  | Some a \<Rightarrow>
                      if mfa_expired req a
                      then (error_response 401 ''MFA window expired. Please login again.'',
                            clear_pending sess, w)
                      else mfa_check_code P req sess w lu a mfa_code)))"

subsection \<open>The router\<close>

datatype operation =
    Login
  | GetCurrentUser
  | Logout
  | InitializeMfaEnrollment
  | CompleteMfaEnrollment
  | CompleteMfaLogin

fun router :: "platform \<Rightarrow> operation \<Rightarrow> request \<Rightarrow> session \<Rightarrow> world \<Rightarrow> outcome" where
  "router P Login req sess w = post_auth P req sess w"
| "router P GetCurrentUser req sess w = get_auth sess w"
| "router P Logout req sess w = post_logout req sess w"
| "router P InitializeMfaEnrollment req sess w = post_mfa_initialize P req sess w"
| "router P CompleteMfaEnrollment req sess w = post_mfa_verify P req sess w"
| "router P CompleteMfaLogin req sess w = post_mfa P req sess w"

text \<open>A client sending requests one after the other, each on the session the last one left.\<close>

definition run_step :: "platform \<Rightarrow> session \<times> world \<Rightarrow> operation \<times> request \<Rightarrow> session \<times> world" where
  "run_step P sw opreq = snd (router P (fst opreq) (snd opreq) (fst sw) (snd sw))"

definition run :: "platform \<Rightarrow> (operation \<times> request) list \<Rightarrow> session \<times> world \<Rightarrow> session \<times> world" where
  "run P reqs sw = foldl (run_step P) sw reqs"

subsection \<open>Observations on sessions and on the store\<close>

text \<open>The session is pending when the check of line 423 lets the request through.\<close>

definition is_pending :: "session \<Rightarrow> bool" where
  "is_pending sess = (truthy_num (pendingUserId sess) \<and> truthy_str (mfaBonusPhrase sess))"

definition holds_authenticated :: "session \<Rightarrow> bool" where
  "holds_authenticated sess = (userId sess \<noteq> None \<and> address sess \<noteq> None)"

definition holds_pending :: "session \<Rightarrow> bool" where
  "holds_pending sess = (pendingUserId sess \<noteq> None \<and> mfaBonusPhrase sess \<noteq> None)"

text \<open>The timeout of a user: null when the user has no auth row or the column is null.\<close>

definition mfaTimeoutAt :: "world \<Rightarrow> nat \<Rightarrow> int option" where
  "mfaTimeoutAt w uid =
     (case find (\<lambda>a. a_userId a = uid) (auths (db w)) of
        None \<Rightarrow> None
      | Some a \<Rightarrow> a_mfaTimeoutTimestamp a)"

text \<open>
  The signature recovers to the address, letter case aside (the verifier compares in
  lower case).
\<close>

definition recovers_to :: "platform \<Rightarrow> string \<Rightarrow> jsval \<Rightarrow> string \<Rightarrow> bool" where
  "recovers_to P message signature addr =
     (case ethers_recover P message signature of
        None \<Rightarrow> False
      | Some recovered \<Rightarrow> toLowerCase recovered = toLowerCase addr)"

subsection \<open>A platform to run the model on\<close>

text \<open>
  Stand-ins for the libraries, small enough to compute with: a signature is the message,
  a slash and the signer's address; the digest is the length of the input; the token of
  a time step is its last decimal digit.
\<close>

definition toy_recover :: "string \<Rightarrow> jsval \<Rightarrow> string option" where
  "toy_recover message signature =
     (case signature of
        JStr s \<Rightarrow>
          if take (length message + 1) s = message @ ''/''
          then Some (drop (length message + 1) s) else None
      | _ \<Rightarrow> None)"

definition toy_totp :: "string \<Rightarrow> int \<Rightarrow> string" where
  "toy_totp secret c = [hex_digit (nat (c mod 10))]"

definition toy_platform :: platform where
  "toy_platform =
     \<lparr>ethers_recover = toy_recover,
      sha256 = (\<lambda>s. of_nat (length s)),
      totp = toy_totp,
      qr_toDataURL = (\<lambda>uri. ''data:image/png;base64,'' @ uri),
      keyuri = (\<lambda>account issuer secret.
                  ''otpauth://totp/'' @ issuer @ '':'' @ account @ ''?secret='' @ secret),
      MFA_SERVER_SALT = Some ''test-salt''\<rparr>"

definition empty_world :: world where
  "empty_world =
     \<lparr>db = \<lparr>users = [], auths = [], messages = [], user_seq = 0\<rparr>,
      otp_window = default_window\<rparr>"

text \<open>A store with one user, \<open>0xab\<close>, in a process that has not touched the window.\<close>

definition demo_world :: "bool \<Rightarrow> bool \<Rightarrow> int option \<Rightarrow> world" where
  "demo_world mfa awaiting timeout =
     \<lparr>db = \<lparr>users = [\<lparr>u_id = 1, u_address = ''0xab'', u_role = ''user''\<rparr>],
             auths = [\<lparr>a_userId = 1, a_mfa = mfa, a_awaitingMfa = awaiting,
                       a_mfaTimeoutTimestamp = timeout\<rparr>],
             messages = [], user_seq = 1\<rparr>,
      otp_window = default_window\<rparr>"

definition authenticated_session :: session where
  "authenticated_session = empty_session\<lparr>userId := Some 1, address := Some ''0xab''\<rparr>"

definition pending_session :: session where
  "pending_session =
     empty_session\<lparr>pendingUserId := Some 1, mfaBonusPhrase := Some (generateBonusPhrase 0)\<rparr>"

definition mk_request :: "jsobject \<Rightarrow> int \<Rightarrow> request" where
  "mk_request b t = \<lparr>body = b, now = t, random16 = 0, session_store_ok = True\<rparr>"

definition login_body :: "string \<Rightarrow> string \<Rightarrow> jsobject" where
  "login_body sg a =
     [(''message'', JStr ''login''), (''signature'', JStr sg), (''address'', JStr a)]"

definition enable_body :: "string \<Rightarrow> jsobject" where
  "enable_body sg = [(''message'', JStr ''enableMFA''), (''signature'', JStr sg)]"

definition mfa_body :: "string \<Rightarrow> string \<Rightarrow> jsobject" where
  "mfa_body code phrase = [(''mfa_code'', JStr code), (''mfa_bonus_phrase'', JStr phrase)]"

section \<open>Properties\<close>

subsection \<open>Signature verifier\<close>

text \<open>
  Claim C5. For every message, signature and expected address, \<open>verifySignature\<close>
  returns a boolean and never passes a failure on: when the recovery of the address
  fails, it returns \<open>false\<close>, while \<open>recoverAddress\<close> on the same input throws its own
  error instead of returning a value.
\<close>

theorem verifySignature_never_throws:
  "(\<exists>b. verifySignature P message signature expectedAddress = Inr b) \<and>
   (ethers_recover P message signature = None \<longrightarrow>
      verifySignature P message signature expectedAddress = Inr False \<and>
      recoverAddress P message signature =
        Inl (RecoveryFailed ''Failed to recover address from signature''))"
  by (auto simp: verifySignature_def recoverAddress_def split: option.split)

theorem verifySignature_never_throws_witness:
  "ethers_recover toy_platform ''login'' (JStr ''0xinvalid'') = None \<and>
   verifySignature toy_platform ''login'' (JStr ''0xinvalid'') ''0xab'' = Inr False \<and>
   recoverAddress toy_platform ''login'' (JStr ''0xinvalid'') =
     Inl (RecoveryFailed ''Failed to recover address from signature'')"
  using verifySignature_never_throws [of toy_platform "''login''" "JStr ''0xinvalid''" "''0xab''"]
  by (simp add: toy_platform_def toy_recover_def)

subsection \<open>Secret derivation\<close>

lemma hex_value_hex_digit: "n < 16 \<Longrightarrow> hex_value (hex_digit n) = Some n"
proof -
  assume "n < 16"
  then have "n \<in> {0, 1, 2, 3, 4, 5, 6, 7, 8, 9, 10, 11, 12, 13, 14, 15}"
    by simp arith
  then show ?thesis
    by (elim insertE emptyE) (simp_all add: hex_value_def hex_digit_def)
qed

lemma parseInt16_hex_of_byte: "parseInt16 (hex_of_byte b) = Some (unat b)"
proof -
  have "unat b < 256"
    using unsigned_less [of b, where 'a = nat] by simp
  then have "unat b div 16 < 16"
    by simp
  then show ?thesis
    by (simp add: parseInt16_def hex_of_byte_def hex_value_hex_digit)
qed

lemma length_hex_of_byte: "length (hex_of_byte b) = 2"
  by (simp add: hex_of_byte_def)

lemma substr_concat_pairs:
  "\<forall>x \<in> set xs. length (f x) = 2 \<Longrightarrow> i < length xs \<Longrightarrow>
   take 2 (drop (i * 2) (concat (map f xs))) = f (xs ! i)"
proof (induction xs arbitrary: i)
  case Nil
  then show ?case by simp
next
  case (Cons x xs)
  show ?case
  proof (cases i)
    case 0
    then show ?thesis using Cons.prems by simp
  next
    case (Suc j)
    then show ?thesis using Cons by simp
  qed
qed

lemma secret_step_digest:
  "i < 32 \<Longrightarrow>
   secret_step (digest_hex h) s i = s @ [base32Chars ! (unat (digest_bytes h ! i) mod 32)]"
  by (simp add: secret_step_def substr_def digest_hex_def substr_concat_pairs
      length_hex_of_byte parseInt16_hex_of_byte digest_bytes_def del: upt_Suc)

lemma foldl_secret_step:
  "\<forall>i \<in> set js. i < 32 \<Longrightarrow>
   foldl (secret_step (digest_hex h)) s js =
     s @ map (\<lambda>i. base32Chars ! (unat (digest_bytes h ! i) mod 32)) js"
  by (induction js arbitrary: s) (simp_all add: secret_step_digest)

lemma generateMFASecret_map:
  "generateMFASecret P a =
     map (\<lambda>i. base32Chars !
            (unat (digest_bytes (sha256 P (toLowerCase a @ '':'' @ server_salt P)) ! i) mod 32))
         [0..<32]"
  by (simp add: generateMFASecret_def Let_def foldl_secret_step del: upt_Suc)

lemma base32Chars_nth: "n < 32 \<Longrightarrow> base32Chars ! n \<in> set base32Chars"
  by (rule nth_mem) (simp add: base32Chars_def)

lemma lower_char_idem: "lower_char (lower_char c) = lower_char c"
proof (cases "65 \<le> (of_char c :: nat) \<and> (of_char c :: nat) \<le> 90")
  case True
  then have "(of_char c + 32) mod 256 = (of_char c + 32 :: nat)"
    by simp
  with True show ?thesis
    by (simp add: lower_char_def Let_def)
next
  case False
  then show ?thesis
    by (auto simp: lower_char_def Let_def)
qed

lemma toLowerCase_idem: "toLowerCase (toLowerCase s) = toLowerCase s"
  by (simp add: toLowerCase_def lower_char_idem)

text \<open>
  Claim C8. For every address and salt, the derived secret has 32 characters, all of
  them in the base32 alphabet A to Z and 2 to 7, and it does not change when the address
  is put in lower case.
\<close>

theorem generateMFASecret_base32:
  "length (generateMFASecret P addr) = 32 \<and>
   set (generateMFASecret P addr) \<subseteq> set base32Chars \<and>
   generateMFASecret P addr = generateMFASecret P (toLowerCase addr)"
  by (auto simp: generateMFASecret_map toLowerCase_idem base32Chars_nth simp del: upt_Suc)

theorem generateMFASecret_base32_witness:
  "length (generateMFASecret toy_platform ''0xAB'') = 32 \<and>
   set (generateMFASecret toy_platform ''0xAB'') \<subseteq> set base32Chars \<and>
   generateMFASecret toy_platform ''0xAB'' = generateMFASecret toy_platform ''0xab''"
proof -
  have l: "toLowerCase ''0xAB'' = ''0xab''"
    by code_simp
  from generateMFASecret_base32 [of toy_platform "''0xAB''"] show ?thesis
    unfolding l .
qed

subsection \<open>Login\<close>

lemma LoginSchema_parse_strings:
  "field b ''message'' = JStr m \<Longrightarrow> field b ''signature'' = JStr sg \<Longrightarrow>
   field b ''address'' = JStr a \<Longrightarrow> LoginSchema_parse b = Some (m, sg, a)"
  by (simp add: LoginSchema_parse_def)

text \<open>
  Claim C9. A login whose message is not the literal \<open>login\<close> is answered with status 400,
  "Invalid login message", and nothing else happens: the answer is the same for every
  signature, every address and every recovery primitive, so no recovery is attempted.
\<close>

theorem login_message_gate:
  assumes "field (body req) ''message'' = JStr m" and "m \<noteq> ''login''"
    and "field (body req) ''signature'' = JStr sg"
    and "field (body req) ''address'' = JStr addr"
    and "field (body req') ''message'' = JStr m'" and "m' \<noteq> ''login''"
    and "field (body req') ''signature'' = JStr sg'"
    and "field (body req') ''address'' = JStr addr'"
  shows "post_auth P req sess w = (error_response 400 ''Invalid login message'', sess, w) \<and>
         post_auth P' req' sess w = post_auth P req sess w"
  using assms by (simp add: post_auth_def LoginSchema_parse_strings)

theorem login_message_gate_witness:
  "post_auth toy_platform
     (mk_request [(''message'', JStr ''Login''), (''signature'', JStr ''login/0xab''),
                  (''address'', JStr ''0xab'')] 1000)
     empty_session empty_world =
   (error_response 400 ''Invalid login message'', empty_session, empty_world) \<and>
   post_auth (toy_platform\<lparr>ethers_recover := \<lambda>m s. None\<rparr>)
     (mk_request [(''message'', JStr ''hello''), (''signature'', JStr ''0xinvalid''),
                  (''address'', JStr ''0xcd'')] 2000)
     empty_session empty_world =
   post_auth toy_platform
     (mk_request [(''message'', JStr ''Login''), (''signature'', JStr ''login/0xab''),
                  (''address'', JStr ''0xab'')] 1000)
     empty_session empty_world"
proof -
  let ?req = "mk_request [(''message'', JStr ''Login''), (''signature'', JStr ''login/0xab''),
                          (''address'', JStr ''0xab'')] 1000"
  let ?req' = "mk_request [(''message'', JStr ''hello''), (''signature'', JStr ''0xinvalid''),
                           (''address'', JStr ''0xcd'')] 2000"
  have 1: "field (body ?req) ''message'' = JStr ''Login''"
    and 2: "field (body ?req) ''signature'' = JStr ''login/0xab''"
    and 3: "field (body ?req) ''address'' = JStr ''0xab''"
    and 4: "field (body ?req') ''message'' = JStr ''hello''"
    and 5: "field (body ?req') ''signature'' = JStr ''0xinvalid''"
    and 6: "field (body ?req') ''address'' = JStr ''0xcd''"
    by (simp_all add: mk_request_def field_def)
  have 7: "''Login'' \<noteq> ''login''" and 8: "''hello'' \<noteq> ''login''"
    by simp_all
  show ?thesis
    by (rule login_message_gate [OF 1 7 2 3 4 8 5 6])
qed

text \<open>
  Claim C6. A login with the message \<open>login\<close> and a signature that does not recover to
  the claimed address is answered with status 401, "Invalid signature"; the session and
  the data store are as they were, so no user and no auth row is created.
\<close>

theorem login_invalid_signature:
  assumes "field (body req) ''message'' = JStr ''login''"
    and "field (body req) ''signature'' = JStr sg"
    and "field (body req) ''address'' = JStr addr"
    and "\<not> recovers_to P ''login'' (JStr sg) addr"
  shows "post_auth P req sess w = (error_response 401 ''Invalid signature'', sess, w)"
  using assms
  by (simp add: post_auth_def LoginSchema_parse_strings verifySignature_def recoverAddress_def
      recovers_to_def split: option.splits)

theorem login_invalid_signature_witness:
  "\<not> recovers_to toy_platform ''login'' (JStr ''login/0xcd'') ''0xab'' \<and>
   post_auth toy_platform (mk_request (login_body ''login/0xcd'' ''0xab'') 1000)
     empty_session empty_world =
   (error_response 401 ''Invalid signature'', empty_session, empty_world)"
proof -
  let ?req = "mk_request (login_body ''login/0xcd'' ''0xab'') 1000"
  have m: "field (body ?req) ''message'' = JStr ''login''"
    and s: "field (body ?req) ''signature'' = JStr ''login/0xcd''"
    and a: "field (body ?req) ''address'' = JStr ''0xab''"
    by (simp_all add: mk_request_def login_body_def field_def)
  have r: "\<not> recovers_to toy_platform ''login'' (JStr ''login/0xcd'') ''0xab''"
    by (simp add: recovers_to_def toy_platform_def toy_recover_def toLowerCase_def
        lower_char_def)
  from login_invalid_signature [OF m s a r] r show ?thesis
    by simp
qed

subsection \<open>Completing a login with MFA\<close>

lemma post_mfa_not_pending:
  assumes "\<not> is_pending sess" and "MFAVerifySchema_parse (body req) = Some x"
  shows "post_mfa P req sess w = (error_response 401 ''No pending MFA authentication'', sess, w)"
  using assms by (cases x) (auto simp: post_mfa_def is_pending_def)

text \<open>
  Claim C7. On a pending session whose auth row has a timeout earlier than now, completing
  the login with the right bonus phrase and any code is answered with status 401, "MFA
  window expired"; the session it leaves has neither \<open>pendingUserId\<close> nor
  \<open>mfaBonusPhrase\<close> and is otherwise as it was, and the store is untouched. The next
  attempt on that session, whatever the store and the clock, is answered with status 401,
  "No pending MFA authentication".
\<close>

theorem mfa_window_expired:
  assumes "is_pending sess"
    and "pendingUserId sess = Some uid" and "mfaBonusPhrase sess = Some phrase"
    and "field (body req) ''mfa_code'' = JStr code"
    and "field (body req) ''mfa_bonus_phrase'' = JStr phrase"
    and "findUnique_by_id (db w) uid = Some lu" and "lu_auth lu = Some a"
    and "a_mfaTimeoutTimestamp a = Some t" and "t < now req"
    and "MFAVerifySchema_parse (body req2) = Some x"
  shows "post_mfa P req sess w =
           (error_response 401 ''MFA window expired. Please login again.'',
            sess\<lparr>pendingUserId := None, mfaBonusPhrase := None\<rparr>, w) \<and>
         status (fst (post_mfa P req sess w)) = 401 \<and>
         pendingUserId (fst (snd (post_mfa P req sess w))) = None \<and>
         mfaBonusPhrase (fst (snd (post_mfa P req sess w))) = None \<and>
         userId (fst (snd (post_mfa P req sess w))) = userId sess \<and>
         address (fst (snd (post_mfa P req sess w))) = address sess \<and>
         post_mfa P req2 (fst (snd (post_mfa P req sess w))) w2 =
           (error_response 401 ''No pending MFA authentication'',
            sess\<lparr>pendingUserId := None, mfaBonusPhrase := None\<rparr>, w2)"
proof -
  let ?cleared = "sess\<lparr>pendingUserId := None, mfaBonusPhrase := None\<rparr>"
  have "MFAVerifySchema_parse (body req) = Some (code, JStr phrase)"
    using assms(4,5) by (simp add: MFAVerifySchema_parse_def)
  then have first: "post_mfa P req sess w =
      (error_response 401 ''MFA window expired. Please login again.'', ?cleared, w)"
    using assms(1-3,6-9)
    by (simp add: post_mfa_def is_pending_def mfa_expired_def clear_pending_def)
  have "\<not> is_pending ?cleared"
    by (simp add: is_pending_def truthy_num_def)
  from post_mfa_not_pending [OF this assms(10)]
  have second: "post_mfa P req2 ?cleared w2 =
      (error_response 401 ''No pending MFA authentication'', ?cleared, w2)" .
  from first second show ?thesis
    by (simp add: error_response_def)
qed

theorem mfa_window_expired_witness:
  "is_pending pending_session \<and>
   post_mfa toy_platform (mk_request (mfa_body ''0'' (generateBonusPhrase 0)) 400000)
     pending_session (demo_world True False (Some 304000)) =
   (error_response 401 ''MFA window expired. Please login again.'',
    empty_session, demo_world True False (Some 304000)) \<and>
   pendingUserId empty_session = None \<and> mfaBonusPhrase empty_session = None \<and>
   post_mfa toy_platform (mk_request (mfa_body ''0'' (generateBonusPhrase 0)) 400001)
     empty_session (demo_world True False (Some 304000)) =
   (error_response 401 ''No pending MFA authentication'',
    empty_session, demo_world True False (Some 304000))"
proof -
  let ?req = "mk_request (mfa_body ''0'' (generateBonusPhrase 0)) 400000"
  let ?req2 = "mk_request (mfa_body ''0'' (generateBonusPhrase 0)) 400001"
  let ?w = "demo_world True False (Some 304000)"
  let ?lu = "load_user (db ?w) \<lparr>u_id = 1, u_address = ''0xab'', u_role = ''user''\<rparr>"
  let ?a = "\<lparr>a_userId = 1, a_mfa = True, a_awaitingMfa = False,
             a_mfaTimeoutTimestamp = Some 304000\<rparr>"
  have 1: "is_pending pending_session"
    by code_simp
  have 2: "pendingUserId pending_session = Some 1"
    and 3: "mfaBonusPhrase pending_session = Some (generateBonusPhrase 0)"
    by (simp_all add: pending_session_def)
  have 4: "field (body ?req) ''mfa_code'' = JStr ''0''"
    and 5: "field (body ?req) ''mfa_bonus_phrase'' = JStr (generateBonusPhrase 0)"
    and 10: "MFAVerifySchema_parse (body ?req2) = Some (''0'', JStr (generateBonusPhrase 0))"
    by (simp_all add: mk_request_def mfa_body_def field_def MFAVerifySchema_parse_def)
  have 6: "findUnique_by_id (db ?w) 1 = Some ?lu"
    by (simp add: findUnique_by_id_def demo_world_def)
  have 7: "lu_auth ?lu = Some ?a"
    by (simp add: load_user_def demo_world_def)
  have 8: "a_mfaTimeoutTimestamp ?a = Some 304000" and 9: "304000 < now ?req"
    by (simp_all add: mk_request_def)
  have e: "pending_session\<lparr>pendingUserId := None, mfaBonusPhrase := None\<rparr> = empty_session"
    by (simp add: pending_session_def empty_session_def)
  note th = mfa_window_expired [OF 1 2 3 4 5 6 7 8 9 10, of toy_platform ?w]
  note first = th [THEN conjunct1]
  note second = th [THEN conjunct2, THEN conjunct2, THEN conjunct2, THEN conjunct2,
      THEN conjunct2, THEN conjunct2, unfolded first fst_conv snd_conv e]
  from 1 first [unfolded e] second show ?thesis
    by (simp add: empty_session_def)
qed

text \<open>
  Claim C10. On a pending session, a request to complete the login whose body has a code
  and no \<open>mfa_bonus_phrase\<close> field passes the validation of the body and is answered
  with status 401, "Invalid bonus phrase"; the session keeps its pending fields.
\<close>

theorem mfa_missing_phrase:
  assumes "is_pending sess"
    and "field (body req) ''mfa_code'' = JStr code"
    and "\<not> has_field (body req) ''mfa_bonus_phrase''"
  shows "MFAVerifySchema_parse (body req) = Some (code, JUndefined) \<and>
         post_mfa P req sess w = (error_response 401 ''Invalid bonus phrase'', sess, w)"
proof -
  have u: "field (body req) ''mfa_bonus_phrase'' = JUndefined"
    using assms(3) by (simp add: has_field_def field_def)
  with assms(2) have p: "MFAVerifySchema_parse (body req) = Some (code, JUndefined)"
    by (simp add: MFAVerifySchema_parse_def)
  with assms(1) show ?thesis
    by (simp add: post_mfa_def is_pending_def)
qed

theorem mfa_missing_phrase_witness:
  "is_pending pending_session \<and>
   \<not> has_field (body (mk_request [(''mfa_code'', JStr ''123456'')] 5000)) ''mfa_bonus_phrase'' \<and>
   MFAVerifySchema_parse (body (mk_request [(''mfa_code'', JStr ''123456'')] 5000)) =
     Some (''123456'', JUndefined) \<and>
   post_mfa toy_platform (mk_request [(''mfa_code'', JStr ''123456'')] 5000)
     pending_session (demo_world True False (Some 304000)) =
   (error_response 401 ''Invalid bonus phrase'', pending_session,
    demo_world True False (Some 304000))"
proof -
  let ?req = "mk_request [(''mfa_code'', JStr ''123456'')] 5000"
  have 1: "is_pending pending_session"
    by code_simp
  have 2: "field (body ?req) ''mfa_code'' = JStr ''123456''"
    and 3: "\<not> has_field (body ?req) ''mfa_bonus_phrase''"
    by (simp_all add: mk_request_def field_def has_field_def)
  from mfa_missing_phrase [OF 1 2 3, of toy_platform "demo_world True False (Some 304000)"] 1 3
  show ?thesis by simp
qed

subsection \<open>The timeout of a pending login\<close>

lemma find_map_auth:
  "(\<And>a. a_userId (g a) = a_userId a) \<Longrightarrow>
   find (\<lambda>a. a_userId a = k) (map g xs) = map_option g (find (\<lambda>a. a_userId a = k) xs)"
  by (induction xs) simp_all

lemma find_append_case:
  "find Q (xs @ ys) = (case find Q xs of None \<Rightarrow> find Q ys | Some x \<Rightarrow> Some x)"
  by (induction xs) simp_all

lemma auth_update_find:
  assumes "auth_update d uid f = Some d'" and "\<And>a. a_userId (f a) = a_userId a"
  shows "find (\<lambda>a. a_userId a = k) (auths d') =
         map_option (\<lambda>a. if a_userId a = uid then f a else a)
           (find (\<lambda>a. a_userId a = k) (auths d))"
proof -
  have "auths d' = map (\<lambda>a. if a_userId a = uid then f a else a) (auths d)"
    using assms(1) by (auto simp: auth_update_def split: if_splits)
  then show ?thesis
    using assms(2) by (simp add: find_map_auth)
qed

lemma auth_update_timeout_same:
  assumes "auth_update (db w) uid f = Some d'"
    and "\<And>a. a_userId (f a) = a_userId a"
    and "\<And>a. a_mfaTimeoutTimestamp (f a) = a_mfaTimeoutTimestamp a"
  shows "mfaTimeoutAt (w\<lparr>db := d'\<rparr>) k = mfaTimeoutAt w k"
  using auth_update_find [OF assms(1,2), of k] assms(3)
  by (auto simp: mfaTimeoutAt_def split: option.splits)

lemma auth_update_timeout_set:
  assumes "auth_update (db w) uid (\<lambda>a. a\<lparr>a_mfaTimeoutTimestamp := v\<rparr>) = Some d'"
  shows "mfaTimeoutAt (w\<lparr>db := d'\<rparr>) k = (if k = uid then v else mfaTimeoutAt w k)"
proof -
  have "list_ex (\<lambda>a. a_userId a = uid) (auths (db w))"
    using assms by (auto simp: auth_update_def split: if_splits)
  then have "find (\<lambda>a. a_userId a = uid) (auths (db w)) \<noteq> None"
    by (auto simp: list_ex_iff find_None_iff)
  then show ?thesis
    using auth_update_find [OF assms, of k]
    by (auto simp: mfaTimeoutAt_def split: option.splits dest: find_Some_iff [THEN iffD1])
qed

lemma user_create_timeout:
  "user_create (db w) addr = (lu, d') \<Longrightarrow> mfaTimeoutAt (w\<lparr>db := d'\<rparr>) k = mfaTimeoutAt w k"
  by (auto simp: user_create_def Let_def mfaTimeoutAt_def find_append_case
      split: option.splits if_splits)

lemma find_or_create_timeout:
  "find_or_create_user (db w) addr = (lu, d') \<Longrightarrow>
   mfaTimeoutAt (w\<lparr>db := d'\<rparr>) k = mfaTimeoutAt w k"
  by (auto simp: find_or_create_user_def user_create_timeout split: option.splits)

lemma login_mfa_timeout:
  assumes "login_mfa req sess w lu = (r, sess', w')"
    and "mfaTimeoutAt w' k \<noteq> mfaTimeoutAt w k"
  shows "mfaTimeoutAt w' k = Some (now req + 300000) \<and>
         (if session_store_ok req
          then status r = 200 \<and> pendingUserId sess' = Some k \<and>
               mfaBonusPhrase sess' = Some (generateBonusPhrase (random16 req))
          else status r = 500 \<and> sess' = sess)"
  using assms
  by (auto simp: login_mfa_def Let_def auth_update_timeout_set ok_response_def
      error_response_def split: option.splits if_splits)

lemma login_complete_world: "login_complete req sess w lu = (r, sess', w') \<Longrightarrow> w' = w"
  by (auto simp: login_complete_def Let_def split: if_splits)

lemma post_auth_timeout:
  assumes "post_auth P req sess w = (r, sess', w')"
    and "mfaTimeoutAt w' k \<noteq> mfaTimeoutAt w k"
  shows "mfaTimeoutAt w' k = Some (now req + 300000) \<and>
         (if session_store_ok req
          then status r = 200 \<and> pendingUserId sess' = Some k \<and>
               mfaBonusPhrase sess' = Some (generateBonusPhrase (random16 req))
          else status r = 500 \<and> sess' = sess)"
proof (cases "LoginSchema_parse (body req)")
  case None
  with assms show ?thesis
    by (simp add: post_auth_def)
next
  case (Some x)
  obtain m sg addr where x: "x = (m, sg, addr)"
    by (cases x) auto
  obtain lu d' where f: "find_or_create_user (db w) (toLowerCase addr) = (lu, d')"
    by (cases "find_or_create_user (db w) (toLowerCase addr)") auto
  note same = find_or_create_timeout [OF f, of k]
  show ?thesis
  proof (cases "m = ''login'' \<and> verifySignature P m (JStr sg) addr = Inr True")
    case False
    with assms Some x show ?thesis
      by (auto simp: post_auth_def split: sum.splits if_splits)
  next
    case True
    then have m: "m = ''login''"
      and v: "verifySignature P ''login'' (JStr sg) addr = Inr True"
      by auto
    show ?thesis
    proof (cases "login_mfa_enabled lu")
      case True
      with m v assms(1) Some x f
      have "login_mfa req sess (w\<lparr>db := d'\<rparr>) lu = (r, sess', w')"
        by (simp add: post_auth_def)
      from login_mfa_timeout [OF this, of k] assms(2) same show ?thesis
        by simp
    next
      case False
      with m v assms(1) Some x f
      have "login_complete req sess (w\<lparr>db := d'\<rparr>) lu = (r, sess', w')"
        by (simp add: post_auth_def)
      from login_complete_world [OF this] assms(2) same show ?thesis
        by simp
    qed
  qed
qed

lemma get_auth_world: "get_auth sess w = (r, sess', w') \<Longrightarrow> w' = w"
  by (auto simp: get_auth_def split: option.splits)

lemma post_logout_world: "post_logout req sess w = (r, sess', w') \<Longrightarrow> w' = w"
  by (auto simp: post_logout_def split: if_splits)

lemma post_mfa_initialize_timeout:
  "post_mfa_initialize P req sess w = (r, sess', w') \<Longrightarrow>
   mfaTimeoutAt w' k = mfaTimeoutAt w k"
  by (auto simp: post_mfa_initialize_def Let_def auth_update_timeout_same
      split: option.splits if_splits sum.splits)

lemma post_mfa_verify_timeout:
  "post_mfa_verify P req sess w = (r, sess', w') \<Longrightarrow> mfaTimeoutAt w' k = mfaTimeoutAt w k"
  by (auto simp: post_mfa_verify_def Let_def auth_update_timeout_same
      split: option.splits if_splits)

lemma otp_window_timeout: "mfaTimeoutAt (w\<lparr>otp_window := n\<rparr>) k = mfaTimeoutAt w k"
  by (simp add: mfaTimeoutAt_def)

lemma findUnique_by_id_id: "findUnique_by_id d uid = Some lu \<Longrightarrow> u_id (lu_user lu) = uid"
  by (auto simp: findUnique_by_id_def load_user_def dest: find_Some_iff [THEN iffD1])

lemma mfa_check_code_timeout:
  assumes "mfa_check_code P req sess w lu a code = (r, sess', w')"
  shows "(mfaTimeoutAt w' k = mfaTimeoutAt w k \<or> mfaTimeoutAt w' k = None) \<and>
         (status r = 200 \<longrightarrow>
            pendingUserId sess' = None \<and> mfaBonusPhrase sess' = None \<and>
            userId sess' = Some (u_id (lu_user lu)) \<and>
            address sess' = Some (u_address (lu_user lu)) \<and>
            mfaTimeoutAt w' (u_id (lu_user lu)) = None)"
  using assms auth_update_timeout_set [of "w\<lparr>otp_window := 2\<rparr>" "u_id (lu_user lu)" None]
  by (auto simp: mfa_check_code_def Let_def otp_window_timeout error_response_def
      ok_response_def clear_pending_def
      split: option.splits if_splits)

lemma post_mfa_timeout:
  assumes "post_mfa P req sess w = (r, sess', w')"
  shows "(mfaTimeoutAt w' k = mfaTimeoutAt w k \<or> mfaTimeoutAt w' k = None) \<and>
         (status r = 200 \<longrightarrow>
            pendingUserId sess' = None \<and> mfaBonusPhrase sess' = None \<and>
            (\<exists>uid. pendingUserId sess = Some uid \<and> userId sess' = Some uid \<and>
                   address sess' \<noteq> None \<and> mfaTimeoutAt w' uid = None))"
proof (cases "MFAVerifySchema_parse (body req)")
  case None
  with assms show ?thesis
    by (auto simp: post_mfa_def error_response_def)
next
  case (Some x)
  obtain code phrase where x: "x = (code, phrase)"
    by (cases x) auto
  show ?thesis
  proof (cases "is_pending sess \<and> phrase = JStr (the (mfaBonusPhrase sess))")
    case False
    with assms Some x show ?thesis
      by (auto simp: post_mfa_def error_response_def is_pending_def split: if_splits)
  next
    case True
    then obtain uid where uid: "pendingUserId sess = Some uid"
      by (auto simp: is_pending_def truthy_num_def split: option.splits)
    show ?thesis
    proof (cases "findUnique_by_id (db w) uid")
      case None
      with assms Some x True uid show ?thesis
        by (auto simp: post_mfa_def error_response_def is_pending_def)
    next
      case lu: (Some lu)
      note id = findUnique_by_id_id [OF lu]
      show ?thesis
      proof (cases "lu_auth lu")
        case None
        with assms Some x True uid lu show ?thesis
          by (auto simp: post_mfa_def error_response_def is_pending_def)
      next
        case a: (Some a)
        show ?thesis
        proof (cases "mfa_expired req a")
          case True
          with assms Some x \<open>is_pending sess \<and> _\<close> uid lu a show ?thesis
            by (auto simp: post_mfa_def error_response_def is_pending_def)
        next
          case False
          with assms Some x True uid lu a
          have "mfa_check_code P req sess w lu a code = (r, sess', w')"
            by (auto simp: post_mfa_def is_pending_def)
          from mfa_check_code_timeout [OF this, of k] uid id show ?thesis
            by auto
        qed
      qed
    qed
  qed
qed

text \<open>
  Claim C2, as the claim states it, fails. A user with MFA logs in at time 4000 and sends
  the code and the right phrase at time 400000, after the timeout 304000: the answer is
  "MFA window expired", the session has lost its pending fields, and the timeout of the
  user is still 304000.
\<close>

theorem mfaTimeoutAt_survives_expiry:
  "run toy_platform
     [(Login, mk_request (login_body ''login/0xab'' ''0xab'') 4000),
      (CompleteMfaLogin, mk_request (mfa_body ''0'' (generateBonusPhrase 0)) 400000)]
     (empty_session, demo_world True False None) =
   (empty_session, demo_world True False (Some 304000)) \<and>
   fst (post_mfa toy_platform (mk_request (mfa_body ''0'' (generateBonusPhrase 0)) 400000)
          pending_session (demo_world True False (Some 304000))) =
     error_response 401 ''MFA window expired. Please login again.'' \<and>
   \<not> holds_pending empty_session \<and>
   pendingUserId empty_session = None \<and> mfaBonusPhrase empty_session = None \<and>
   mfaTimeoutAt (demo_world True False (Some 304000)) 1 = Some 304000"
  by code_simp

text \<open>
  Claim C2, amended. The timeout of a user takes a new non-null value only by a login
  that takes the MFA branch: it is set to five minutes from now, and, when the session
  is saved, the answer is a success and the session holds that user as its pending user
  together with the bonus phrase of this login (when the save fails the answer is status
  500 and the session is as it was). A login with MFA that completes removes both
  pending fields from the session, stores the pending user as the authenticated one, and
  leaves the timeout of that user null.
\<close>

theorem mfaTimeoutAt_lifecycle:
  assumes "router P opn req sess w = (r, sess', w')"
  shows "(mfaTimeoutAt w' k \<noteq> None \<and> mfaTimeoutAt w' k \<noteq> mfaTimeoutAt w k \<longrightarrow>
            opn = Login \<and> mfaTimeoutAt w' k = Some (now req + 300000) \<and>
            (if session_store_ok req
             then status r = 200 \<and> pendingUserId sess' = Some k \<and>
                  mfaBonusPhrase sess' = Some (generateBonusPhrase (random16 req))
             else status r = 500 \<and> sess' = sess)) \<and>
         (opn = CompleteMfaLogin \<and> status r = 200 \<longrightarrow>
            pendingUserId sess' = None \<and> mfaBonusPhrase sess' = None \<and>
            (\<exists>uid. pendingUserId sess = Some uid \<and> userId sess' = Some uid \<and>
                   address sess' \<noteq> None \<and> mfaTimeoutAt w' uid = None))"
proof (cases opn)
  case Login
  with assms post_auth_timeout [of P req sess w r sess' w' k] show ?thesis
    by auto
next
  case GetCurrentUser
  with assms get_auth_world [of sess w r sess' w'] show ?thesis
    by auto
next
  case Logout
  with assms post_logout_world [of req sess w r sess' w'] show ?thesis
    by auto
next
  case InitializeMfaEnrollment
  with assms post_mfa_initialize_timeout [of P req sess w r sess' w' k] show ?thesis
    by auto
next
  case CompleteMfaEnrollment
  with assms post_mfa_verify_timeout [of P req sess w r sess' w' k] show ?thesis
    by auto
next
  case CompleteMfaLogin
  with assms post_mfa_timeout [of P req sess w r sess' w' k] show ?thesis
    by auto
qed

theorem mfaTimeoutAt_lifecycle_witness:
  "mfaTimeoutAt (demo_world True False None) 1 = None \<and>
   session_store_ok (mk_request (login_body ''login/0xab'' ''0xab'') 4000) \<and>
   mfaTimeoutAt (demo_world True False (Some 304000)) 1 =
     Some (now (mk_request (login_body ''login/0xab'' ''0xab'') 4000) + 300000) \<and>
   pendingUserId pending_session = Some 1 \<and>
   mfaBonusPhrase pending_session =
     Some (generateBonusPhrase (random16 (mk_request (login_body ''login/0xab'' ''0xab'') 4000))) \<and>
   pendingUserId authenticated_session = None \<and>
   mfaBonusPhrase authenticated_session = None \<and>
   userId authenticated_session = Some 1 \<and>
   mfaTimeoutAt ((demo_world True False None)\<lparr>otp_window := 2\<rparr>) 1 = None"
proof -
  let ?login = "mk_request (login_body ''login/0xab'' ''0xab'') 4000"
  let ?mfa = "mk_request (mfa_body ''0'' (generateBonusPhrase 0)) 5000"
  let ?ok = "ok_response [(''success'', JBool True), (''mfa'', JBool True),
               (''mfa_bonus_phrase'', JStr (generateBonusPhrase 0))]"
  let ?done = "ok_response [(''success'', JBool True),
               (''user'', user_mfa_json \<lparr>u_id = 1, u_address = ''0xab'', u_role = ''user''\<rparr> True),
               (''messages'', JArr [])]"
  have step1: "router toy_platform Login ?login empty_session (demo_world True False None) =
      (?ok, pending_session, demo_world True False (Some 304000))"
    by code_simp
  have step2: "router toy_platform CompleteMfaLogin ?mfa pending_session
        (demo_world True False (Some 304000)) =
      (?done, authenticated_session, (demo_world True False None)\<lparr>otp_window := 2\<rparr>)"
    by code_simp
  have before: "mfaTimeoutAt (demo_world True False None) 1 = None"
    and after: "mfaTimeoutAt (demo_world True False (Some 304000)) 1 = Some 304000"
    and st: "status ?done = 200"
    and saved: "session_store_ok ?login"
    and pend: "pendingUserId pending_session = Some 1"
    by (simp_all add: mfaTimeoutAt_def demo_world_def ok_response_def mk_request_def
        pending_session_def)
  from mfaTimeoutAt_lifecycle [OF step1, of 1] mfaTimeoutAt_lifecycle [OF step2, of 1]
    before after st saved pend
  show ?thesis
    by simp
qed

subsection \<open>Where the code leaves the documented behaviour\<close>

text \<open>
  Claim C1. The session should never hold the pending fields and the authenticated fields
  together. The login route does not keep to this: a user logs in, enrolls in MFA and
  logs in again on the same session; the MFA branch stores the pending fields and leaves
  \<open>userId\<close> and \<open>address\<close> where they were. The route that completes a login with MFA
  does delete the pending fields when it stores the authenticated ones.
\<close>

theorem login_mfa_keeps_authenticated_fields:
  "run toy_platform
     [(Login, mk_request (login_body ''login/0xAB'' ''0xAB'') 1000),
      (InitializeMfaEnrollment, mk_request (enable_body ''enableMFA/0xab'') 2000),
      (CompleteMfaEnrollment, mk_request [(''mfa_code'', JStr ''0'')] 3000),
      (Login, mk_request (login_body ''login/0xab'' ''0xab'') 4000)]
     (empty_session, empty_world) =
   (\<lparr>userId = Some 1, address = Some ''0xab'', pendingUserId = Some 1,
      mfaBonusPhrase = Some ''00000000000000000000000000000000''\<rparr>,
    demo_world True False (Some 304000)) \<and>
   holds_authenticated
     \<lparr>userId = Some 1, address = Some ''0xab'', pendingUserId = Some 1,
       mfaBonusPhrase = Some ''00000000000000000000000000000000''\<rparr> \<and>
   holds_pending
     \<lparr>userId = Some 1, address = Some ''0xab'', pendingUserId = Some 1,
       mfaBonusPhrase = Some ''00000000000000000000000000000000''\<rparr>"
  by code_simp

text \<open>
  Claim C3. A code of a step within two steps of the current one should be accepted by
  both routes, whatever ran before. At time 0, the code of the next step (time 30000):
  the enrollment route of a process that has not yet completed a login with MFA rejects
  it; the same request is accepted once the window of the process is 2; and the route
  that completes a login, which sets the window to 2 itself, accepts that code.
\<close>

theorem enrollment_window_depends_on_process:
  "post_mfa_verify toy_platform
     (mk_request [(''mfa_code'', JStr (authenticator_generate toy_platform 30000
                                        (generateMFASecret toy_platform ''0xab'')))] 0)
     authenticated_session (demo_world False True None) =
   (error_response 401 ''Invalid MFA code'', authenticated_session,
    demo_world False True None) \<and>
   fst (post_mfa_verify toy_platform
     (mk_request [(''mfa_code'', JStr (authenticator_generate toy_platform 30000
                                        (generateMFASecret toy_platform ''0xab'')))] 0)
     authenticated_session ((demo_world False True None)\<lparr>otp_window := 2\<rparr>)) =
   ok_response [(''success'', JBool True), (''message'', JStr ''MFA enabled successfully'')] \<and>
   status (fst (post_mfa toy_platform
     (mk_request (mfa_body (authenticator_generate toy_platform 30000
                              (generateMFASecret toy_platform ''0xab''))
                           (generateBonusPhrase 0)) 0)
     pending_session (demo_world True False (Some 300000)))) = 200"
  by code_simp

theorem enrollment_window_depends_on_process_witness:
  "is_pending pending_session \<and>
   status (fst (post_mfa_verify toy_platform
     (mk_request [(''mfa_code'', JStr (authenticator_generate toy_platform 30000
                                        (generateMFASecret toy_platform ''0xab'')))] 0)
     authenticated_session (demo_world False True None))) = 401 \<and>
   status (fst (post_mfa_verify toy_platform
     (mk_request [(''mfa_code'', JStr (authenticator_generate toy_platform 30000
                                        (generateMFASecret toy_platform ''0xab'')))] 0)
     authenticated_session ((demo_world False True None)\<lparr>otp_window := 2\<rparr>))) = 200"
proof -
  have p: "is_pending pending_session"
    by code_simp
  from enrollment_window_depends_on_process p show ?thesis
    by (simp add: error_response_def ok_response_def)
qed

text \<open>
  Claim C4. The answer to a successful start of the enrollment should carry the QR code
  and the secret. It carries \<open>success\<close> and \<open>qrCode\<close> only.
\<close>

theorem initialize_response_has_no_secret:
  "fst (post_mfa_initialize toy_platform (mk_request (enable_body ''enableMFA/0xab'') 2000)
          authenticated_session (demo_world False False None)) =
   ok_response
     [(''success'', JBool True),
      (''qrCode'', JStr (qr_toDataURL toy_platform
                          (keyuri toy_platform ''0xab'' ''CAT Web3Signer''
                             (generateMFASecret toy_platform ''0xab''))))] \<and>
   has_field (json (fst (post_mfa_initialize toy_platform
                           (mk_request (enable_body ''enableMFA/0xab'') 2000)
                           authenticated_session (demo_world False False None))))
     ''qrCode'' \<and>
   \<not> has_field (json (fst (post_mfa_initialize toy_platform
                             (mk_request (enable_body ''enableMFA/0xab'') 2000)
                             authenticated_session (demo_world False False None))))
       ''secret''"
  by code_simp

end
